theory Spec2Isabelle
  imports Main "HOL-Library.Word"
begin

section \<open>JavaScript values used by static/js/main.js\<close>

text \<open>
  A JavaScript string is a sequence of 16-bit code units. String literals of the script
  are written with \<open>str\<close>; the accented letters of its French texts are Latin-1 code
  points and are written as numbered characters.
\<close>

type_synonym jsstring = "16 word list"

definition str :: "string \<Rightarrow> jsstring" where
  "str cs = map of_char cs"

text \<open>
  \<open>String.prototype.trim\<close> strips the WhiteSpace and LineTerminator code points of
  ECMAScript from both ends.
\<close>

definition is_trim_space :: "16 word \<Rightarrow> bool" where
  "is_trim_space c =
     (c \<in> set [0x9, 0xA, 0xB, 0xC, 0xD, 0x20, 0xA0, 0x1680, 0x2028, 0x2029,
                0x202F, 0x205F, 0x3000, 0xFEFF]
      \<or> (0x2000 \<le> c \<and> c \<le> 0x200A))"

definition trim :: "jsstring \<Rightarrow> jsstring" where
  "trim s = rev (dropWhile is_trim_space (rev (dropWhile is_trim_space s)))"

text \<open>
  \<open>content.replace(/\n/g, '<br>')\<close>: every line feed (code unit 10) becomes the four
  code units of \<open><br>\<close>; every other code unit is copied.
\<close>

fun replace_newlines :: "jsstring \<Rightarrow> jsstring" where
  "replace_newlines [] = []"
| "replace_newlines (c # cs) =
     (if c = 0xA then str ''<br>'' @ replace_newlines cs else c # replace_newlines cs)"

text \<open>
  A safe integer: a Number that is a whole number of magnitude below \<open>2^53\<close>, held as a
  54-bit word read as signed. Every reading of \<open>Date.now()\<close> is one (a time value is a
  whole number of at most \<open>8.64 * 10^15\<close> in magnitude), and for a safe integer
  \<open>String(n)\<close> is the decimal numeral with a leading minus sign.
\<close>

type_synonym safe_integer = "54 word"

fun digits :: "nat \<Rightarrow> jsstring" where
  "digits n =
     (if n < 10 then [of_nat (48 + n)] else digits (n div 10) @ [of_nat (48 + n mod 10)])"

declare digits.simps [simp del]

definition number_to_string :: "safe_integer \<Rightarrow> jsstring" where
  "number_to_string n =
     (if sint n < 0 then str ''-'' @ digits (nat (- sint n)) else digits (nat (sint n)))"

text \<open>
  The value \<open>response.json()\<close> resolves to. \<open>None\<close> of type \<open>json option\<close> stands for
  \<open>undefined\<close>, the value of a property that is absent. A number is \<open>JNum n\<close> when it
  is a safe integer (\<open>-0\<close> is \<open>JNum 0\<close>: the script cannot tell them apart). Any other
  number (a fraction, a magnitude of \<open>2^53\<close> or more, an infinity from an overflowing
  literal) is \<open>JDouble s\<close>, given by the text \<open>s\<close> that \<open>String\<close> prints for it: the
  script only tests such a number, which is never zero, and prints it.
\<close>

datatype json =
    JNull
  | JBool bool
  | JNum safe_integer
  | JDouble jsstring
  | JStr jsstring
  | JArr "json list"
  | JObj "(jsstring \<times> json) list"

datatype js_error = TypeError

text \<open>
  \<open>data.key\<close> for the four keys the script reads (\<open>success\<close>, \<open>answer\<close>, \<open>error\<close>,
  \<open>sections_count\<close>): reading a property of \<open>null\<close> throws, an object yields the value
  of the last member with that key (as \<open>JSON.parse\<close> keeps it), and every other value
  has no such property.
\<close>

fun get_prop :: "json \<Rightarrow> jsstring \<Rightarrow> js_error + json option" where
  "get_prop JNull k = Inl TypeError"
| "get_prop (JObj kvs) k = Inr (map_of (rev kvs) k)"
| "get_prop v k = Inr None"

fun truthy :: "json option \<Rightarrow> bool" where
  "truthy None = False"
| "truthy (Some JNull) = False"
| "truthy (Some (JBool b)) = b"
| "truthy (Some (JNum n)) = (n \<noteq> 0)"
| "truthy (Some (JDouble s)) = True"
| "truthy (Some (JStr s)) = (s \<noteq> [])"
| "truthy (Some (JArr xs)) = True"
| "truthy (Some (JObj kvs)) = True"

fun join_with :: "jsstring \<Rightarrow> jsstring list \<Rightarrow> jsstring" where
  "join_with sep [] = []"
| "join_with sep [s] = s"
| "join_with sep (s # t # ss) = s @ sep @ join_with sep (t # ss)"

text \<open>
  The conversion to a string that \<open>+\<close> with a string and a template literal apply to a
  parsed value. An array prints its elements separated by commas, with \<open>null\<close> elements
  empty. An object prints as \<open>[object Object]\<close> through the inherited \<open>toString\<close>; when
  it has a member of its own named \<open>toString\<close> (a parsed value, so not callable) no
  method yields a primitive and the conversion throws, also from inside an array.
\<close>

fun to_string :: "json \<Rightarrow> js_error + jsstring" where
  "to_string JNull = Inr (str ''null'')"
| "to_string (JBool b) = Inr (if b then str ''true'' else str ''false'')"
| "to_string (JNum n) = Inr (number_to_string n)"
| "to_string (JDouble s) = Inr s"
| "to_string (JStr s) = Inr s"
| "to_string (JArr xs) =
     (let rs = map (\<lambda>x. if x = JNull then Inr [] else to_string x) xs
      in if list_ex isl rs then Inl TypeError else Inr (join_with (str '','') (map projr rs)))"
| "to_string (JObj kvs) =
     (if map_of kvs (str ''toString'') = None then Inr (str ''[object Object]'')
      else Inl TypeError)"

fun template_string :: "json option \<Rightarrow> js_error + jsstring" where
  "template_string None = Inr (str ''undefined'')"
| "template_string (Some v) = to_string v"

section \<open>The page: the five elements the script holds, and its pending requests\<close>

text \<open>
  A child of \<open>#chat-messages\<close> as \<open>addMessage\<close> builds it: its class, its \<open>id\<close>
  attribute when one was set, and the markup assigned to \<open>innerHTML\<close>.
\<close>

record node =
  className :: jsstring
  elem_id :: "jsstring option"
  innerHTML :: jsstring

text \<open>
  The markup is not escaped, so assigning it makes the browser create the elements it
  declares, inside the entry. Of such an element the script can only observe the \<open>id\<close>
  (through \<open>getElementById\<close>) and the place in the tree: \<open>Elem i cs\<close> has the \<open>id\<close>
  attribute \<open>i\<close> and the element children \<open>cs\<close>.
\<close>

datatype dom = Elem "jsstring option" "dom list"

text \<open>The ids of a tree and of a forest, in tree order.\<close>

fun dom_ids :: "dom \<Rightarrow> jsstring list" where
  "dom_ids (Elem i cs) = (case i of None \<Rightarrow> [] | Some k \<Rightarrow> [k]) @ concat (map dom_ids cs)"

definition forest_ids :: "dom list \<Rightarrow> jsstring list" where
  "forest_ids fs = concat (map dom_ids fs)"

text \<open>Detaching the first element in tree order that has the id, with all it contains.\<close>

fun remove_elem :: "jsstring \<Rightarrow> dom list \<Rightarrow> dom list" where
  "remove_elem k [] = []"
| "remove_elem k (Elem i cs # fs) =
     (if i = Some k then fs
      else if k \<in> set (forest_ids cs) then Elem i (remove_elem k cs) # fs
      else Elem i cs # remove_elem k fs)"

datatype element = QuestionInput | SendBtn | ReloadBtn | StatsDiv

text \<open>
  A request of the script that has not settled yet. A question request remembers the
  \<open>loadingMsgId\<close> its handlers close over.
\<close>

datatype request = Stats_request | Reload_request | Ask_request safe_integer

text \<open>Every effect on the page or the network, in the order the script performs it.\<close>

datatype effect =
    Append_child node
  | Remove_child node
  | Remove_inserted jsstring
  | Scroll_to_end
  | Set_value jsstring
  | Set_disabled element bool
  | Set_textContent element jsstring
  | Focus element
  | Fetch jsstring jsstring "(jsstring \<times> jsstring) list" "json option"
  | Console_error

text \<open>
  The page. The log holds the children of \<open>#chat-messages\<close> in order, each with the
  elements its markup made the browser create. The browser's parser is not part of the
  script: \<open>parse_markup\<close> is the forest of elements it creates from a markup text, and
  every property below holds for whatever it is. The rest of the document (the HTML is
  not in the sources) is taken to hold no element whose id begins \<open>msg-\<close>, and code
  that inserted markup could start (an event-handler attribute) is not followed.
\<close>

record page =
  log_entries :: "(node \<times> dom list) list"
  parse_markup :: "jsstring \<Rightarrow> dom list"
  questionInput_value :: jsstring
  questionInput_disabled :: bool
  sendBtn_disabled :: bool
  reloadBtn_disabled :: bool
  reloadBtn_textContent :: jsstring
  statsDiv_textContent :: jsstring
  in_flight :: "(nat \<times> request) list"
  next_request :: nat
  effects :: "effect list"

definition chatMessages :: "page \<Rightarrow> node list" where
  "chatMessages p = map fst (log_entries p)"

definition emit :: "effect \<Rightarrow> page \<Rightarrow> page" where
  "emit e p = p\<lparr>effects := effects p @ [e]\<rparr>"

text \<open>
  \<open>fetch(url, {method, headers, body})\<close>: the request is sent and stays pending until it
  settles. The body is the JSON document that \<open>JSON.stringify\<close> serialises.
\<close>

definition fetch ::
  "jsstring \<Rightarrow> jsstring \<Rightarrow> (jsstring \<times> jsstring) list \<Rightarrow> json option \<Rightarrow> request \<Rightarrow> page \<Rightarrow> page" where
  "fetch url method headers body r p =
     emit (Fetch url method headers body)
       (p\<lparr>in_flight := in_flight p @ [(next_request p, r)],
          next_request := Suc (next_request p)\<rparr>)"

section \<open>addMessage and removeMessage\<close>

definition msg_key :: "safe_integer \<Rightarrow> jsstring" where
  "msg_key i = str ''msg-'' @ number_to_string i"

text \<open>
  \<open>addMessage(type, content, id = null)\<close>. The id is \<open>None\<close> for \<open>null\<close> (the default)
  and a number otherwise; \<open>if (id)\<close> is JavaScript truthiness, so the number 0 sets no
  \<open>id\<close> attribute. The content is a string here: the one caller that may pass something
  else (\<open>data.answer\<close>) is modelled at the call, where \<open>content.replace\<close> throws before
  anything was appended.
\<close>

definition new_message :: "jsstring \<Rightarrow> jsstring \<Rightarrow> safe_integer option \<Rightarrow> node" where
  "new_message type content ident =
     \<lparr>className = str ''message '' @ type,
      elem_id = (case ident of None \<Rightarrow> None
                 | Some i \<Rightarrow> if i \<noteq> 0 then Some (msg_key i) else None),
      innerHTML = replace_newlines content\<rparr>"

definition addMessage :: "jsstring \<Rightarrow> jsstring \<Rightarrow> safe_integer option \<Rightarrow> page \<Rightarrow> page" where
  "addMessage type content ident p =
     emit Scroll_to_end
       (emit (Append_child (new_message type content ident))
          (p\<lparr>log_entries := log_entries p
               @ [(new_message type content ident,
                   parse_markup p (replace_newlines content))]\<rparr>))"

definition has_key :: "jsstring \<Rightarrow> node \<Rightarrow> bool" where
  "has_key k n = (elem_id n = Some k)"

text \<open>The ids of all elements of the log, in tree order: an entry, then what is inside it.\<close>

fun log_ids :: "(node \<times> dom list) list \<Rightarrow> jsstring list" where
  "log_ids [] = []"
| "log_ids ((n, f) # es) =
     (case elem_id n of None \<Rightarrow> [] | Some k \<Rightarrow> [k]) @ forest_ids f @ log_ids es"

text \<open>
  \<open>document.getElementById(k)\<close>: the first element in tree order with the id, which
  is an entry of the log or an element inside one, or \<open>null\<close>.
\<close>

datatype found = The_entry node | An_inserted_element

fun getElementById :: "jsstring \<Rightarrow> (node \<times> dom list) list \<Rightarrow> found option" where
  "getElementById k [] = None"
| "getElementById k ((n, f) # es) =
     (if elem_id n = Some k then Some (The_entry n)
      else if k \<in> set (forest_ids f) then Some An_inserted_element
      else getElementById k es)"

text \<open>The log once the element that \<open>getElementById(k)\<close> finds is detached.\<close>

fun remove_from_log :: "jsstring \<Rightarrow> (node \<times> dom list) list \<Rightarrow> (node \<times> dom list) list" where
  "remove_from_log k [] = []"
| "remove_from_log k ((n, f) # es) =
     (if elem_id n = Some k then es
      else if k \<in> set (forest_ids f) then (n, remove_elem k f) # es
      else (n, f) # remove_from_log k es)"

text \<open>\<open>removeMessage(id)\<close>: the element found, if any, is detached.\<close>

definition removeMessage :: "safe_integer \<Rightarrow> page \<Rightarrow> page" where
  "removeMessage i p =
     (case getElementById (msg_key i) (log_entries p) of
        None \<Rightarrow> p
      | Some messageDiv \<Rightarrow>
          emit (case messageDiv of
                  The_entry n \<Rightarrow> Remove_child n
                | An_inserted_element \<Rightarrow> Remove_inserted (msg_key i))
            (p\<lparr>log_entries := remove_from_log (msg_key i) (log_entries p)\<rparr>))"

text \<open>
  \<open>promise.then(then_handler).catch(catch_handler)\<close>. A handler that throws keeps the
  effects it had before the throw; the catch handler then runs on that page.
\<close>

datatype completion = Normal page | Threw page

text \<open>
  How a request settles: \<open>Rejected\<close> when \<open>fetch\<close> fails or the body is not JSON (then
  \<open>response.json()\<close> rejects), \<open>Fulfilled data\<close> with the parsed body otherwise.
\<close>

datatype settlement = Rejected | Fulfilled json

fun settle_with ::
  "(json \<Rightarrow> page \<Rightarrow> completion) \<Rightarrow> (page \<Rightarrow> page) \<Rightarrow> settlement \<Rightarrow> page \<Rightarrow> page" where
  "settle_with then_handler catch_handler Rejected p = catch_handler p"
| "settle_with then_handler catch_handler (Fulfilled data) p =
     (case then_handler data p of Normal p' \<Rightarrow> p' | Threw p' \<Rightarrow> catch_handler p')"

section \<open>Element properties the script assigns\<close>

fun set_disabled :: "element \<Rightarrow> bool \<Rightarrow> page \<Rightarrow> page" where
  "set_disabled QuestionInput b p = emit (Set_disabled QuestionInput b) (p\<lparr>questionInput_disabled := b\<rparr>)"
| "set_disabled SendBtn b p = emit (Set_disabled SendBtn b) (p\<lparr>sendBtn_disabled := b\<rparr>)"
| "set_disabled ReloadBtn b p = emit (Set_disabled ReloadBtn b) (p\<lparr>reloadBtn_disabled := b\<rparr>)"
| "set_disabled StatsDiv b p = emit (Set_disabled StatsDiv b) p"

fun set_textContent :: "element \<Rightarrow> jsstring \<Rightarrow> page \<Rightarrow> page" where
  "set_textContent ReloadBtn t p = emit (Set_textContent ReloadBtn t) (p\<lparr>reloadBtn_textContent := t\<rparr>)"
| "set_textContent StatsDiv t p = emit (Set_textContent StatsDiv t) (p\<lparr>statsDiv_textContent := t\<rparr>)"
| "set_textContent e t p = emit (Set_textContent e t) p"

definition set_value :: "jsstring \<Rightarrow> page \<Rightarrow> page" where
  "set_value v p = emit (Set_value v) (p\<lparr>questionInput_value := v\<rparr>)"

section \<open>loadStats\<close>

definition loadStats :: "page \<Rightarrow> page" where
  "loadStats p = fetch (str ''/api/stats'') (str ''GET'') [] None Stats_request p"

definition stats_then :: "json \<Rightarrow> page \<Rightarrow> completion" where
  "stats_then data p =
     (case get_prop data (str ''success'') of
        Inl e \<Rightarrow> Threw p
      | Inr success \<Rightarrow>
          if truthy success then
            (case get_prop data (str ''sections_count'') of
               Inl e \<Rightarrow> Threw p
             | Inr n \<Rightarrow>
                 (case template_string n of
                    Inl e \<Rightarrow> Threw p
                  | Inr count \<Rightarrow>
                      Normal (set_textContent StatsDiv
                        (count @ str '' sections de documentation disponibles'') p)))
          else
            Normal (set_textContent StatsDiv
              (str ''Erreur lors du chargement des statistiques'') p))"

definition stats_catch :: "page \<Rightarrow> page" where
  "stats_catch p = set_textContent StatsDiv (str ''Erreur de connexion'') (emit Console_error p)"

section \<open>reloadDocuments\<close>

definition reloadDocuments :: "page \<Rightarrow> page" where
  "reloadDocuments p =
     (let p = set_disabled ReloadBtn True p;
          p = set_textContent ReloadBtn (str ''Chargement en cours...'') p;
          p = addMessage (str ''system'')
                (str ''Rechargement de la documentation en cours...'') None p
      in fetch (str ''/api/reload'') (str ''POST'') [] None Reload_request p)"

text \<open>
  The statements after the \<open>if\<close> of the reload handler: the stats line is written from
  \<open>data.sections_count\<close> whatever \<open>data.success\<close> was, then the button is restored.
  Printing the count can throw (see \<open>to_string\<close>); on the failure branch that is after
  the failure message was appended.
\<close>

definition reload_finish :: "json \<Rightarrow> page \<Rightarrow> completion" where
  "reload_finish data p =
     (case get_prop data (str ''sections_count'') of
        Inl e \<Rightarrow> Threw p
      | Inr n \<Rightarrow>
          (case template_string n of
             Inl e \<Rightarrow> Threw p
           | Inr count \<Rightarrow>
               Normal
                 (let p = set_textContent StatsDiv
                            (count @ str '' sections de documentation disponibles'') p;
                      p = set_disabled ReloadBtn False p
                  in set_textContent ReloadBtn (str ''Recharger la documentation'') p)))"

definition reload_then :: "json \<Rightarrow> page \<Rightarrow> completion" where
  "reload_then data p =
     (case get_prop data (str ''success'') of
        Inl e \<Rightarrow> Threw p
      | Inr success \<Rightarrow>
          if truthy success then
            (case get_prop data (str ''sections_count'') of
               Inl e \<Rightarrow> Threw p
             | Inr n \<Rightarrow>
                 (case template_string n of
                    Inl e \<Rightarrow> Threw p
                  | Inr count \<Rightarrow>
                      reload_finish data
                        (addMessage (str ''system'')
                           (str (''Rechargement termin'' @ [CHR 0xE9] @ ''. '') @ count
                              @ str '' sections disponibles.'') None p)))
          else
            reload_finish data
              (addMessage (str ''system'')
                 (str ''Erreur lors du rechargement de la documentation.'') None p))"

definition reload_catch :: "page \<Rightarrow> page" where
  "reload_catch p =
     (let p = emit Console_error p;
          p = addMessage (str ''system'') (str ''Erreur de connexion lors du rechargement.'') None p;
          p = set_disabled ReloadBtn False p
      in set_textContent ReloadBtn (str ''Recharger la documentation'') p)"

section \<open>sendQuestion\<close>

text \<open>\<open>now\<close> is what \<open>Date.now()\<close> returns when the function reads it.\<close>

definition sendQuestion :: "safe_integer \<Rightarrow> page \<Rightarrow> page" where
  "sendQuestion now p =
     (let question = trim (questionInput_value p) in
      if question = [] then p
      else
        let p = addMessage (str ''user'') question None p;
            p = set_value [] p;
            p = set_disabled QuestionInput True p;
            p = set_disabled SendBtn True p;
            loadingMsgId = now;
            p = addMessage (str ''assistant'') (str ''Recherche en cours...'') (Some loadingMsgId) p
        in fetch (str ''/api/ask'') (str ''POST'')
             [(str ''Content-Type'', str ''application/json'')]
             (Some (JObj [(str ''question'', JStr question)]))
             (Ask_request loadingMsgId) p)"

text \<open>The three statements that end both handlers of a question.\<close>

definition ask_finish :: "page \<Rightarrow> page" where
  "ask_finish p =
     (let p = set_disabled QuestionInput False p;
          p = set_disabled SendBtn False p
      in emit (Focus QuestionInput) p)"

text \<open>
  \<open>data.error\<close> or else the default text, as the string that \<open>+\<close> appends; converting
  the error can throw.
\<close>

definition error_or_default :: "json option \<Rightarrow> js_error + jsstring" where
  "error_or_default e =
     (if truthy e then template_string e
      else Inr (str (''Probl'' @ [CHR 0xE8] @ ''me inconnu'')))"

text \<open>
  The handler of the parsed answer. \<open>addMessage('assistant', data.answer)\<close> throws at
  \<open>content.replace\<close> unless \<open>data.answer\<close> is a string, before it appends anything;
  so does the \<open>+\<close> of the error text when the error cannot be converted.
\<close>

definition ask_then :: "safe_integer \<Rightarrow> json \<Rightarrow> page \<Rightarrow> completion" where
  "ask_then loadingMsgId data p =
     (let p = removeMessage loadingMsgId p in
      case get_prop data (str ''success'') of
        Inl e \<Rightarrow> Threw p
      | Inr success \<Rightarrow>
          if truthy success then
            (case get_prop data (str ''answer'') of
               Inr (Some (JStr answer)) \<Rightarrow>
                 Normal (ask_finish (addMessage (str ''assistant'') answer None p))
             | _ \<Rightarrow> Threw p)
          else
            (case get_prop data (str ''error'') of
               Inl e \<Rightarrow> Threw p
             | Inr e \<Rightarrow>
                 (case error_or_default e of
                    Inl e \<Rightarrow> Threw p
                  | Inr text \<Rightarrow>
                      Normal (ask_finish
                        (addMessage (str ''system'') (str ''Erreur: '' @ text) None p)))))"

definition ask_catch :: "safe_integer \<Rightarrow> page \<Rightarrow> page" where
  "ask_catch loadingMsgId p =
     (let p = emit Console_error p;
          p = removeMessage loadingMsgId p;
          p = addMessage (str ''system'')
                (str (''Erreur de connexion. Veuillez r'' @ [CHR 0xE9] @ ''essayer.'')) None p
      in ask_finish p)"

section \<open>Events\<close>

text \<open>The \<open>keypress\<close> listener of the question input; \<open>key\<close> is \<open>e.key\<close>.\<close>

definition keypress_handler :: "jsstring \<Rightarrow> safe_integer \<Rightarrow> page \<Rightarrow> page" where
  "keypress_handler key now p = (if key = str ''Enter'' then sendQuestion now p else p)"

text \<open>The \<open>DOMContentLoaded\<close> listener: it reads the five elements, calls \<open>loadStats\<close> and
  registers the listeners that \<open>step\<close> dispatches to.\<close>

definition DOMContentLoaded :: "page \<Rightarrow> page" where
  "DOMContentLoaded p = loadStats p"

fun settled :: "request \<Rightarrow> settlement \<Rightarrow> page \<Rightarrow> page" where
  "settled Stats_request s p = settle_with stats_then stats_catch s p"
| "settled Reload_request s p = settle_with reload_then reload_catch s p"
| "settled (Ask_request loadingMsgId) s p =
     settle_with (ask_then loadingMsgId) (ask_catch loadingMsgId) s p"

text \<open>
  What can happen to the page once the script is loaded: the user edits the question
  field, clicks a button or presses a key in the field (with the clock reading the
  listener would get), or a pending request settles. The browser delivers no click to a
  disabled button and no key or edit to a disabled input.
\<close>

datatype event =
    User_input jsstring
  | Click_send safe_integer
  | Keypress jsstring safe_integer
  | Click_reload
  | Settle nat settlement

fun step :: "event \<Rightarrow> page \<Rightarrow> page" where
  "step (User_input v) p =
     (if questionInput_disabled p then p else p\<lparr>questionInput_value := v\<rparr>)"
| "step (Click_send now) p = (if sendBtn_disabled p then p else sendQuestion now p)"
| "step (Keypress key now) p =
     (if questionInput_disabled p then p else keypress_handler key now p)"
| "step Click_reload p = (if reloadBtn_disabled p then p else reloadDocuments p)"
| "step (Settle k s) p =
     (case map_of (in_flight p) k of
        None \<Rightarrow> p
      | Some r \<Rightarrow> settled r s (p\<lparr>in_flight := filter (\<lambda>kr. fst kr \<noteq> k) (in_flight p)\<rparr>))"

fun run :: "event list \<Rightarrow> page \<Rightarrow> page" where
  "run [] p = p"
| "run (e # es) p = run es (step e p)"


text \<open>
  An empty loaded page for the examples. Its parser finds no element, as every parser
  does in the texts of the examples, which hold no \<open><\<close>.
\<close>

definition blank_page :: page where
  "blank_page =
     \<lparr>log_entries = [], parse_markup = (\<lambda>markup. []),
      questionInput_value = [], questionInput_disabled = False,
      sendBtn_disabled = False, reloadBtn_disabled = False,
      reloadBtn_textContent = str ''Recharger la documentation'',
      statsDiv_textContent = [], in_flight = [], next_request = 0, effects = []\<rparr>"

text \<open>
  The same page with a parser that is known at one more text, the question
  \<open><i id=msg-5>x</i>\<close>: there every HTML parser creates one \<open>i\<close> element whose id is
  \<open>msg-5\<close>.
\<close>

definition tagged_page :: page where
  "tagged_page =
     blank_page\<lparr>parse_markup :=
       (\<lambda>markup. if markup = str ''<i id=msg-5>x</i>''
          then [Elem (Some (str ''msg-5'')) []] else [])\<rparr>"

section \<open>Observations on a page\<close>






text \<open>The effects on the question input and the send control, and those on the reload control.\<close>

fun question_control_effect :: "effect \<Rightarrow> bool" where
  "question_control_effect (Set_disabled QuestionInput b) = True"
| "question_control_effect (Set_disabled SendBtn b) = True"
| "question_control_effect (Focus e) = True"
| "question_control_effect e = False"

fun reload_control_effect :: "effect \<Rightarrow> bool" where
  "reload_control_effect (Set_disabled ReloadBtn b) = True"
| "reload_control_effect (Set_textContent ReloadBtn t) = True"
| "reload_control_effect e = False"



definition unkeyed :: "node \<Rightarrow> bool" where
  "unkeyed n = (elem_id n = None)"

definition connection_error_entry :: node where
  "connection_error_entry =
     new_message (str ''system'')
       (str (''Erreur de connexion. Veuillez r'' @ [CHR 0xE9] @ ''essayer.'')) None"

text \<open>
  The entry that the handlers of a question append last, by the way the request settles:
  the answer, the server's error, or the connection error (also when the handler of the
  parsed answer throws and the catch handler takes over).
\<close>

definition terminal_entry :: "settlement \<Rightarrow> node" where
  "terminal_entry s =
     (case s of
        Rejected \<Rightarrow> connection_error_entry
      | Fulfilled data \<Rightarrow>
          (case get_prop data (str ''success'') of
             Inl e \<Rightarrow> connection_error_entry
           | Inr success \<Rightarrow>
               if truthy success then
                 (case get_prop data (str ''answer'') of
                    Inr (Some (JStr answer)) \<Rightarrow> new_message (str ''assistant'') answer None
                  | _ \<Rightarrow> connection_error_entry)
               else
                 (case get_prop data (str ''error'') of
                    Inl e \<Rightarrow> connection_error_entry
                  | Inr e \<Rightarrow>
                      (case error_or_default e of
                         Inl e \<Rightarrow> connection_error_entry
                       | Inr text \<Rightarrow>
                           new_message (str ''system'') (str ''Erreur: '' @ text) None))))"

text \<open>The ids of the elements that inserted markup created, over the whole log.\<close>

definition inserted_ids :: "page \<Rightarrow> jsstring list" where
  "inserted_ids p = concat (map (\<lambda>e. forest_ids (snd e)) (log_entries p))"

text \<open>The effect of \<open>removeMessage\<close> on a log, by what \<open>getElementById\<close> finds in it.\<close>

definition detached :: "jsstring \<Rightarrow> (node \<times> dom list) list \<Rightarrow> effect list" where
  "detached k es =
     (case getElementById k es of
        None \<Rightarrow> []
      | Some (The_entry n) \<Rightarrow> [Remove_child n]
      | Some An_inserted_element \<Rightarrow> [Remove_inserted k])"

text \<open>
  The text segments of a message, as the specification speaks of them: the maximal runs
  between line feeds, in order.
\<close>

fun segments :: "jsstring \<Rightarrow> jsstring list" where
  "segments [] = [[]]"
| "segments (c # cs) =
     (if c = 0xA then [] # segments cs
      else (case segments cs of [] \<Rightarrow> [[c]] | s # ss \<Rightarrow> (c # s) # ss))"

section \<open>Properties of addMessage and removeMessage\<close>

lemma segments_nonempty: "segments cs \<noteq> []"
  by (induction cs) (auto split: list.splits)

lemma join_with_Cons:
  "ss \<noteq> [] \<Longrightarrow> join_with sep (s # ss) = s @ sep @ join_with sep ss"
  by (cases ss) auto

lemma join_with_Cons_head:
  "join_with sep ((c # s) # ss) = c # join_with sep (s # ss)"
  by (cases ss) auto

lemma replace_newlines_segments:
  "replace_newlines cs = join_with (str ''<br>'') (segments cs)"
proof (induction cs)
  case Nil
  show ?case by simp
next
  case (Cons c cs)
  show ?case
  proof (cases "c = 0xA")
    case True
    with Cons show ?thesis
      by (simp add: join_with_Cons segments_nonempty)
  next
    case False
    obtain s ss where seg: "segments cs = s # ss"
      using segments_nonempty [of cs] by (cases "segments cs") auto
    with False Cons show ?thesis
      by (simp add: join_with_Cons_head)
  qed
qed

lemma join_segments: "join_with [0xA] (segments cs) = cs"
proof (induction cs)
  case Nil
  show ?case by simp
next
  case (Cons c cs)
  obtain s ss where seg: "segments cs = s # ss"
    using segments_nonempty [of cs] by (cases "segments cs") auto
  with Cons show ?case
    by (cases "c = 0xA") (simp_all add: join_with_Cons join_with_Cons_head)
qed

lemma segments_no_newline: "list_all (\<lambda>s. 0xA \<notin> set s) (segments cs)"
proof (induction cs)
  case Nil
  show ?case by simp
next
  case (Cons c cs)
  then show ?case
    by (cases "segments cs") auto
qed

lemma chatMessages_emit [simp]: "chatMessages (emit e p) = chatMessages p"
  by (simp add: emit_def chatMessages_def)

lemma chatMessages_addMessage:
  "chatMessages (addMessage type content ident p) =
     chatMessages p @ [new_message type content ident]"
  by (simp add: addMessage_def chatMessages_def emit_def)

lemma getElementById_none:
  "getElementById k es = None \<longleftrightarrow> k \<notin> set (log_ids es)"
  by (induction es) (auto split: option.splits if_splits)

lemma log_ids_own_and_inserted:
  "set (log_ids es) =
     {k. \<exists>n \<in> set (map fst es). has_key k n}
       \<union> set (concat (map (\<lambda>e. forest_ids (snd e)) es))"
  by (induction es) (auto simp: has_key_def split: option.splits)

lemma find_has_key_none:
  "find (has_key k) ns = None \<longleftrightarrow> (\<forall>n \<in> set ns. \<not> has_key k n)"
  by (induction ns) auto

lemma remove_from_log_none: "getElementById k es = None \<Longrightarrow> remove_from_log k es = es"
  by (induction es) (auto split: if_splits)

lemma chatMessages_removeMessage:
  "chatMessages (removeMessage i p) = map fst (remove_from_log (msg_key i) (log_entries p))"
  by (simp add: removeMessage_def chatMessages_def emit_def remove_from_log_none
      split: option.splits)

lemma remove_from_log_snoc_unkeyed:
  "elem_id n = None \<Longrightarrow>
     map fst (remove_from_log k (es @ [(n, f)])) = map fst (remove_from_log k es) @ [n]"
  by (induction es) auto

lemma remove_from_log_no_entry:
  "find (has_key k) (map fst es) = None \<Longrightarrow> map fst (remove_from_log k es) = map fst es"
  by (induction es) (auto simp: has_key_def split: if_splits)

text \<open>
  C7. For every message text, \<open>addMessage\<close> appends one entry whose markup is the text's
  segments (the runs between line feeds) joined by \<open><br>\<close>, in their order: the
  segments are those of the text (joined by line feeds they give the text back, and none
  contains a line feed), so nothing is lost or reordered.
\<close>

theorem addMessage_newlines_to_breaks:
  "innerHTML (last (chatMessages (addMessage type content ident p))) =
       join_with (str ''<br>'') (segments content)
   \<and> join_with [0xA] (segments content) = content
   \<and> list_all (\<lambda>s. 0xA \<notin> set s) (segments content)"
  by (simp add: chatMessages_addMessage new_message_def replace_newlines_segments
      join_segments segments_no_newline)

theorem addMessage_newlines_to_breaks_witness:
  "innerHTML (last (chatMessages
       (addMessage (str ''user'') (str ''a'' @ [0xA] @ str ''b'') None blank_page))) =
     str ''a<br>b''
   \<and> segments (str ''a'' @ [0xA] @ str ''b'') = [str ''a'', str ''b'']"
  using addMessage_newlines_to_breaks
    [of "str ''user''" "str ''a'' @ [0xA] @ str ''b''" None blank_page]
  by (simp add: str_def)

text \<open>
  C10. \<open>addMessage\<close> sets the lookup key \<open>msg-<id>\<close> exactly when the id is truthy: none
  for \<open>null\<close>, none for the number 0, and \<open>msg-<id>\<close> for every other number. An entry
  created with id 0 is therefore out of reach of \<open>removeMessage\<close>: whatever id is asked
  for, the removal acts on the earlier entries as if the entry were not there and
  leaves it in place. When no earlier entry has the key \<open>msg-0\<close>, \<open>removeMessage(0)\<close>
  takes no entry out of the log, and it changes nothing at all when moreover no element
  created from inserted markup has that id.
\<close>

theorem addMessage_zero_id_never_removed:
  "elem_id (new_message type content None) = None
   \<and> elem_id (new_message type content (Some 0)) = None
   \<and> elem_id (new_message type content (Some i)) = (if i = 0 then None else Some (msg_key i))
   \<and> chatMessages (addMessage type content (Some 0) p) =
        chatMessages p @ [new_message type content (Some 0)]
   \<and> chatMessages (removeMessage j (addMessage type content (Some 0) p)) =
        chatMessages (removeMessage j p) @ [new_message type content (Some 0)]
   \<and> (find (has_key (msg_key 0)) (chatMessages p) = None \<longrightarrow>
        chatMessages (removeMessage 0 (addMessage type content (Some 0) p)) =
          chatMessages (addMessage type content (Some 0) p))
   \<and> (find (has_key (msg_key 0)) (chatMessages p) = None
        \<and> msg_key 0 \<notin> set (inserted_ids (addMessage type content (Some 0) p)) \<longrightarrow>
        removeMessage 0 (addMessage type content (Some 0) p) =
          addMessage type content (Some 0) p)"
proof -
  let ?n = "new_message type content (Some 0)"
  let ?q = "addMessage type content (Some 0) p"
  have unkeyed: "elem_id ?n = None"
    by (simp add: new_message_def)
  have entries: "log_entries ?q =
      log_entries p @ [(?n, parse_markup p (replace_newlines content))]"
    by (simp add: addMessage_def emit_def)
  have any: "chatMessages (removeMessage j ?q) = chatMessages (removeMessage j p) @ [?n]" for j
    by (simp add: chatMessages_removeMessage entries remove_from_log_snoc_unkeyed [OF unkeyed])
  have "chatMessages (removeMessage 0 ?q) = chatMessages ?q"
    if own: "find (has_key (msg_key 0)) (chatMessages p) = None"
  proof -
    from own have "map fst (remove_from_log (msg_key 0) (log_entries p)) =
        map fst (log_entries p)"
      unfolding chatMessages_def by (rule remove_from_log_no_entry)
    then have "chatMessages (removeMessage 0 p) = chatMessages p"
      unfolding chatMessages_removeMessage by (simp only: chatMessages_def)
    with any [of 0] show ?thesis
      by (simp add: chatMessages_addMessage)
  qed
  moreover note any [of j]
  moreover have "removeMessage 0 ?q = ?q"
    if own: "find (has_key (msg_key 0)) (chatMessages p) = None"
      and inserted: "msg_key 0 \<notin> set (inserted_ids ?q)"
  proof -
    from own unkeyed have "\<forall>n \<in> set (map fst (log_entries ?q)). \<not> has_key (msg_key 0) n"
      by (auto simp: find_has_key_none chatMessages_def entries has_key_def)
    with inserted have "msg_key 0 \<notin> set (log_ids (log_entries ?q))"
      unfolding log_ids_own_and_inserted inserted_ids_def by blast
    then have "getElementById (msg_key 0) (log_entries ?q) = None"
      by (simp add: getElementById_none)
    then show ?thesis
      by (simp add: removeMessage_def)
  qed
  ultimately show ?thesis
    by (simp add: new_message_def chatMessages_addMessage)
qed

theorem addMessage_zero_id_never_removed_witness:
  "removeMessage 0
     (addMessage (str ''assistant'') (str ''Recherche en cours...'') (Some 0) blank_page) =
     addMessage (str ''assistant'') (str ''Recherche en cours...'') (Some 0) blank_page
   \<and> chatMessages (removeMessage 5
     (addMessage (str ''assistant'') (str ''Recherche en cours...'') (Some 0) blank_page)) =
     [new_message (str ''assistant'') (str ''Recherche en cours...'') (Some 0)]"
proof -
  let ?t = "str ''assistant''" and ?c = "str ''Recherche en cours...''"
  have none: "find (has_key (msg_key 0)) (chatMessages blank_page) = None"
    by (simp add: blank_page_def chatMessages_def)
  have inserted: "msg_key 0 \<notin> set (inserted_ids (addMessage ?t ?c (Some 0) blank_page))"
    by (simp add: inserted_ids_def addMessage_def emit_def blank_page_def forest_ids_def)
  have empty: "chatMessages (removeMessage 5 blank_page) = []"
    by (simp add: removeMessage_def blank_page_def chatMessages_def)
  from addMessage_zero_id_never_removed [of ?t ?c 0 blank_page 0] none inserted
  have "removeMessage 0 (addMessage ?t ?c (Some 0) blank_page) =
      addMessage ?t ?c (Some 0) blank_page"
    by blast
  moreover from addMessage_zero_id_never_removed [of ?t ?c 0 blank_page 5]
  have "chatMessages (removeMessage 5 (addMessage ?t ?c (Some 0) blank_page)) =
      chatMessages (removeMessage 5 blank_page) @ [new_message ?t ?c (Some 0)]"
    by blast
  ultimately show ?thesis
    by (simp only: empty append_Nil simp_thms)
qed

section \<open>What each operation changes\<close>

lemma emit_fields [simp]:
  "log_entries (emit e p) = log_entries p"
  "parse_markup (emit e p) = parse_markup p"
  "questionInput_value (emit e p) = questionInput_value p"
  "questionInput_disabled (emit e p) = questionInput_disabled p"
  "sendBtn_disabled (emit e p) = sendBtn_disabled p"
  "reloadBtn_disabled (emit e p) = reloadBtn_disabled p"
  "reloadBtn_textContent (emit e p) = reloadBtn_textContent p"
  "statsDiv_textContent (emit e p) = statsDiv_textContent p"
  "in_flight (emit e p) = in_flight p"
  "next_request (emit e p) = next_request p"
  "effects (emit e p) = effects p @ [e]"
  by (simp_all add: emit_def)

lemma addMessage_fields [simp]:
  "log_entries (addMessage t c i p) =
     log_entries p @ [(new_message t c i, parse_markup p (replace_newlines c))]"
  "parse_markup (addMessage t c i p) = parse_markup p"
  "questionInput_value (addMessage t c i p) = questionInput_value p"
  "questionInput_disabled (addMessage t c i p) = questionInput_disabled p"
  "sendBtn_disabled (addMessage t c i p) = sendBtn_disabled p"
  "reloadBtn_disabled (addMessage t c i p) = reloadBtn_disabled p"
  "reloadBtn_textContent (addMessage t c i p) = reloadBtn_textContent p"
  "statsDiv_textContent (addMessage t c i p) = statsDiv_textContent p"
  "in_flight (addMessage t c i p) = in_flight p"
  "next_request (addMessage t c i p) = next_request p"
  "effects (addMessage t c i p) = effects p @ [Append_child (new_message t c i), Scroll_to_end]"
  by (simp_all add: addMessage_def)

lemma removeMessage_fields [simp]:
  "log_entries (removeMessage i p) = remove_from_log (msg_key i) (log_entries p)"
  "parse_markup (removeMessage i p) = parse_markup p"
  "questionInput_value (removeMessage i p) = questionInput_value p"
  "questionInput_disabled (removeMessage i p) = questionInput_disabled p"
  "sendBtn_disabled (removeMessage i p) = sendBtn_disabled p"
  "reloadBtn_disabled (removeMessage i p) = reloadBtn_disabled p"
  "reloadBtn_textContent (removeMessage i p) = reloadBtn_textContent p"
  "statsDiv_textContent (removeMessage i p) = statsDiv_textContent p"
  "in_flight (removeMessage i p) = in_flight p"
  "next_request (removeMessage i p) = next_request p"
  "effects (removeMessage i p) = effects p @ detached (msg_key i) (log_entries p)"
  by (simp_all add: removeMessage_def detached_def remove_from_log_none
      split: option.splits found.splits)

lemma detached_control_effects [simp]:
  "filter question_control_effect (detached k es) = []"
  "filter reload_control_effect (detached k es) = []"
  by (simp_all add: detached_def split: option.splits found.splits)

lemma fetch_fields [simp]:
  "log_entries (fetch u m h b r p) = log_entries p"
  "parse_markup (fetch u m h b r p) = parse_markup p"
  "questionInput_value (fetch u m h b r p) = questionInput_value p"
  "questionInput_disabled (fetch u m h b r p) = questionInput_disabled p"
  "sendBtn_disabled (fetch u m h b r p) = sendBtn_disabled p"
  "reloadBtn_disabled (fetch u m h b r p) = reloadBtn_disabled p"
  "reloadBtn_textContent (fetch u m h b r p) = reloadBtn_textContent p"
  "statsDiv_textContent (fetch u m h b r p) = statsDiv_textContent p"
  "in_flight (fetch u m h b r p) = in_flight p @ [(next_request p, r)]"
  "next_request (fetch u m h b r p) = Suc (next_request p)"
  "effects (fetch u m h b r p) = effects p @ [Fetch u m h b]"
  by (simp_all add: fetch_def)

lemma ask_finish_fields [simp]:
  "log_entries (ask_finish p) = log_entries p"
  "parse_markup (ask_finish p) = parse_markup p"
  "questionInput_disabled (ask_finish p) = False"
  "sendBtn_disabled (ask_finish p) = False"
  "reloadBtn_disabled (ask_finish p) = reloadBtn_disabled p"
  "reloadBtn_textContent (ask_finish p) = reloadBtn_textContent p"
  "statsDiv_textContent (ask_finish p) = statsDiv_textContent p"
  "in_flight (ask_finish p) = in_flight p"
  "next_request (ask_finish p) = next_request p"
  "effects (ask_finish p) =
     effects p @ [Set_disabled QuestionInput False, Set_disabled SendBtn False, Focus QuestionInput]"
  by (simp_all add: ask_finish_def)











section \<open>Pending requests and the controls that gate them\<close>

declare settled.simps [simp del]




























section \<open>The message log through a question\<close>





lemma new_message_unkeyed [simp]: "unkeyed (new_message t c None)"
  by (simp add: unkeyed_def new_message_def)

lemma terminal_entry_unkeyed [simp]: "unkeyed (terminal_entry s)"
  by (auto simp: terminal_entry_def connection_error_entry_def
      split: settlement.splits sum.splits option.splits json.splits)








section \<open>Properties of sendQuestion and the keypress listener\<close>

lemma dropWhile_all: "list_all P (dropWhile P xs) \<longleftrightarrow> list_all P xs"
  by (induction xs) auto

lemma trim_empty_iff: "trim s = [] \<longleftrightarrow> list_all is_trim_space s"
proof -
  have "trim s = [] \<longleftrightarrow> list_all is_trim_space (rev (dropWhile is_trim_space s))"
    by (simp add: trim_def dropWhile_eq_Nil_conv list_all_iff)
  also have "\<dots> \<longleftrightarrow> list_all is_trim_space (dropWhile is_trim_space s)"
    by (simp add: list_all_iff)
  finally show ?thesis
    by (simp add: dropWhile_all)
qed

text \<open>
  C6. A value is trimmed to the empty string exactly when it is empty or holds only
  white space; then \<open>sendQuestion\<close> returns the page as it was (no entry, no request, no
  effect at all, the controls as they were), whether it is called by a click on the send
  control or by the Enter key.
\<close>

theorem sendQuestion_blank_input:
  "(trim v = [] \<longleftrightarrow> list_all is_trim_space v)
   \<and> (trim (questionInput_value p) = [] \<longrightarrow>
        sendQuestion now p = p
        \<and> step (Click_send now) p = p
        \<and> step (Keypress (str ''Enter'') now) p = p)"
  by (simp add: trim_empty_iff sendQuestion_def keypress_handler_def)

theorem sendQuestion_blank_input_witness:
  "trim (questionInput_value (blank_page\<lparr>questionInput_value := str ''  ''\<rparr>)) = []
   \<and> sendQuestion 5 (blank_page\<lparr>questionInput_value := str ''  ''\<rparr>) =
       blank_page\<lparr>questionInput_value := str ''  ''\<rparr>"
  using sendQuestion_blank_input [of "str ''  ''" "blank_page\<lparr>questionInput_value := str ''  ''\<rparr>" 5]
  by (simp add: str_def is_trim_space_def)

text \<open>
  C9. The keypress listener calls \<open>sendQuestion\<close> for the key \<open>Enter\<close> and does nothing
  for any other key. Where the input and the send control are enabled or disabled
  together (as the script always leaves them), pressing Enter in the field and clicking
  the send control are the same transition.
\<close>

theorem enter_key_submits:
  "keypress_handler (str ''Enter'') now p = sendQuestion now p
   \<and> (key \<noteq> str ''Enter'' \<longrightarrow> keypress_handler key now p = p)
   \<and> (key \<noteq> str ''Enter'' \<longrightarrow> step (Keypress key now) p = p)
   \<and> (questionInput_disabled p = sendBtn_disabled p \<longrightarrow>
        step (Keypress (str ''Enter'') now) p = step (Click_send now) p)"
  by (simp add: keypress_handler_def)

theorem enter_key_submits_witness:
  "step (Keypress (str ''a'') 5) (blank_page\<lparr>questionInput_value := str ''hi''\<rparr>) =
     blank_page\<lparr>questionInput_value := str ''hi''\<rparr>
   \<and> step (Keypress (str ''Enter'') 5) (blank_page\<lparr>questionInput_value := str ''hi''\<rparr>) =
       step (Click_send 5) (blank_page\<lparr>questionInput_value := str ''hi''\<rparr>)"
  using enter_key_submits [of 5 "blank_page\<lparr>questionInput_value := str ''hi''\<rparr>" "str ''a''"]
  by (simp add: str_def blank_page_def)



section \<open>The question and reload cycles\<close>



lemmas run_defs =
  blank_page_def DOMContentLoaded_def loadStats_def fetch_def emit_def sendQuestion_def
  reloadDocuments_def addMessage_def removeMessage_def new_message_def set_value_def
  keypress_handler_def settled.simps ask_then_def ask_catch_def ask_finish_def
  reload_then_def reload_finish_def reload_catch_def stats_then_def stats_catch_def
  error_or_default_def has_key_def msg_key_def number_to_string_def digits.simps
  chatMessages_def detached_def forest_ids_def
  trim_def is_trim_space_def str_def Let_def









section \<open>The message log of a question\<close>




text \<open>
  The placeholder is not the element found when markup inserted before it declares the
  id. At a clock reading 5 the question \<open><i id=msg-5>x</i>\<close> creates an element with the
  id of the placeholder, and \<open>getElementById\<close> finds that element first: the answer
  detaches it from the user entry and the placeholder stays in the log.
\<close>

lemma placeholder_kept_behind_inserted_id:
  "chatMessages
     (run [User_input (str ''<i id=msg-5>x</i>''), Click_send 5,
           Settle 1 (Fulfilled (JObj [(str ''success'', JBool True),
                                       (str ''answer'', JStr (str ''ok''))]))]
        (DOMContentLoaded tagged_page)) =
     [new_message (str ''user'') (str ''<i id=msg-5>x</i>'') None,
      new_message (str ''assistant'') (str ''Recherche en cours...'') (Some 5),
      new_message (str ''assistant'') (str ''ok'') None]
   \<and> drop 9 (effects
     (run [User_input (str ''<i id=msg-5>x</i>''), Click_send 5,
           Settle 1 (Fulfilled (JObj [(str ''success'', JBool True),
                                       (str ''answer'', JStr (str ''ok''))]))]
        (DOMContentLoaded tagged_page))) =
     [Remove_inserted (str ''msg-5''),
      Append_child (new_message (str ''assistant'') (str ''ok'') None), Scroll_to_end,
      Set_disabled QuestionInput False, Set_disabled SendBtn False, Focus QuestionInput]"
  by (simp add: run_defs tagged_page_def)

text \<open>
  A truthy error that \<open>+\<close> cannot convert to a string: the answer
  \<open>{success: false, error: {toString: null}}\<close> makes the handler throw, and the entry
  appended is the connection error.
\<close>

lemma unconvertible_error_is_connection_error:
  "chatMessages
     (run [User_input (str ''hi''), Click_send 5,
           Settle 1 (Fulfilled (JObj [(str ''success'', JBool False),
                                       (str ''error'', JObj [(str ''toString'', JNull)])]))]
        (DOMContentLoaded blank_page)) =
     [new_message (str ''user'') (str ''hi'') None, connection_error_entry]"
  by (simp add: run_defs connection_error_entry_def)


section \<open>The effects of sendQuestion in order\<close>

text \<open>
  What \<open>sendQuestion\<close> does for a field whose trimmed value is not empty, in order: the
  user entry (the trimmed value), the field cleared, input and send control disabled,
  the placeholder entry, the POST of the question. The placeholder carries the key
  \<open>msg-<now>\<close> unless the clock reads 0.
\<close>

lemma sendQuestion_effects:
  assumes "trim (questionInput_value p) \<noteq> []"
  shows "effects (sendQuestion now p) =
      effects p
        @ [Append_child (new_message (str ''user'') (trim (questionInput_value p)) None),
           Scroll_to_end,
           Set_value [],
           Set_disabled QuestionInput True,
           Set_disabled SendBtn True,
           Append_child
             (new_message (str ''assistant'') (str ''Recherche en cours...'') (Some now)),
           Scroll_to_end,
           Fetch (str ''/api/ask'') (str ''POST'')
             [(str ''Content-Type'', str ''application/json'')]
             (Some (JObj [(str ''question'', JStr (trim (questionInput_value p)))]))]"
    and "elem_id (new_message (str ''assistant'') (str ''Recherche en cours...'') (Some now)) =
      (if now = 0 then None else Some (msg_key now))"
    and "questionInput_value (sendQuestion now p) = []"
  using assms by (simp_all add: sendQuestion_def Let_def set_value_def new_message_def)

text \<open>
  C3 at a clock reading 0. The four effects come in the order the claim gives, but the
  placeholder is appended without an \<open>id\<close> attribute: \<open>addMessage\<close> tests \<open>if (id)\<close>, and
  0 is falsy. The entry is then not tagged with the correlation id.
\<close>

theorem placeholder_unkeyed_at_time_zero:
  "effects (sendQuestion 0 (blank_page\<lparr>questionInput_value := str '' hi ''\<rparr>)) =
     [Append_child \<lparr>className = str ''message user'', elem_id = None, innerHTML = str ''hi''\<rparr>,
      Scroll_to_end,
      Set_value [],
      Set_disabled QuestionInput True,
      Set_disabled SendBtn True,
      Append_child \<lparr>className = str ''message assistant'', elem_id = None,
                    innerHTML = str ''Recherche en cours...''\<rparr>,
      Scroll_to_end,
      Fetch (str ''/api/ask'') (str ''POST'')
        [(str ''Content-Type'', str ''application/json'')]
        (Some (JObj [(str ''question'', JStr (str ''hi''))]))]"
  by (simp add: run_defs)

text \<open>The placeholder of such a question stays in the log when the answer arrives.\<close>

lemma placeholder_stays_at_time_zero:
  "chatMessages
     (run [User_input (str ''hi''), Click_send 0,
           Settle 1 (Fulfilled (JObj [(str ''success'', JBool True),
                                       (str ''answer'', JStr (str ''ok''))]))]
        (DOMContentLoaded blank_page)) =
     [\<lparr>className = str ''message user'', elem_id = None, innerHTML = str ''hi''\<rparr>,
      \<lparr>className = str ''message assistant'', elem_id = None,
       innerHTML = str ''Recherche en cours...''\<rparr>,
      \<lparr>className = str ''message assistant'', elem_id = None, innerHTML = str ''ok''\<rparr>]"
  by (simp add: run_defs)

section \<open>The stats line after a reload\<close>

text \<open>
  The reload handler writes the stats line from \<open>data.sections_count\<close> whatever
  \<open>data.success\<close> is: without the field the line reads \<open>undefined sections ...\<close>.
\<close>

lemma reload_stats_line:
  assumes "get_prop d (str ''success'') = Inr sv"
    and "get_prop d (str ''sections_count'') = Inr n"
    and "template_string n = Inr count"
  shows "statsDiv_textContent (settled Reload_request (Fulfilled d) p) =
      count @ str '' sections de documentation disponibles''"
  using assms
  by (simp add: settled.simps reload_then_def reload_finish_def Let_def)

text \<open>
  C4 at a concrete page. The stats request answered 42 sections; a reload then answers
  \<open>{success: false, error: "boom"}\<close>, with no \<open>sections_count\<close>. The stats line does not
  keep the count of the last successful answer: it reads
  \<open>undefined sections de documentation disponibles\<close>.
\<close>

theorem reload_failure_overwrites_stats:
  "statsDiv_textContent
     (run [Settle 0 (Fulfilled (JObj [(str ''success'', JBool True),
                                       (str ''sections_count'', JNum 42)])),
           Click_reload]
        (DOMContentLoaded blank_page)) =
     str ''42 sections de documentation disponibles''
   \<and> statsDiv_textContent
     (run [Settle 0 (Fulfilled (JObj [(str ''success'', JBool True),
                                       (str ''sections_count'', JNum 42)])),
           Click_reload,
           Settle 1 (Fulfilled (JObj [(str ''success'', JBool False),
                                       (str ''error'', JStr (str ''boom''))]))]
        (DOMContentLoaded blank_page)) =
     str ''undefined sections de documentation disponibles''"
  by (simp add: run_defs)


end
